theory Spec2Isabelle
  imports Complex_Main "HOL-Library.Multiset"
begin

section \<open>Python values as the scanner sees them\<close>

text \<open>
  The scanner of \<^verbatim>\<open>defi_scanner.py\<close> works on whatever \<^verbatim>\<open>res.json()\<close> returns: an arbitrary
  decoded JSON value. The model keeps that value untyped, as the code does.

  Numbers: a Python \<^verbatim>\<open>float\<close> is modelled by the rational number it denotes. Only finite
  values are modelled (no NaN, no infinities), and arithmetic is exact: the rounding of
  binary floating point is not part of the model. Comparisons against the thresholds of
  the code are exact in both worlds. A Python \<^verbatim>\<open>int\<close> is an unbounded \<open>int\<close>.

  Strings are lists of 8-bit characters; the case mapping and the white space below are
  those of ASCII text.

  A decoded JSON object is a Python \<^verbatim>\<open>dict\<close>; it is represented by an association list
  read with \<open>map_of\<close>.
\<close>

datatype json =
    JNull
  | JBool bool
  | JInt int
  | JFloat rat
  | JStr string
  | JList "json list"
  | JObj "(string \<times> json) list"

datatype pyerror = TypeError | AttributeError | ValueError | OverflowError | UnboundLocalError

type_synonym pydict = "(string \<times> json) list"

text \<open>\<^verbatim>\<open>d.get(k, default)\<close> on a dict.\<close>

definition dict_get :: "pydict \<Rightarrow> string \<Rightarrow> json \<Rightarrow> json" where
  "dict_get d k dflt = (case map_of d k of Some v \<Rightarrow> v | None \<Rightarrow> dflt)"

text \<open>Truth value of a Python object, as used by \<^verbatim>\<open>x or default\<close>.\<close>

fun truthy :: "json \<Rightarrow> bool" where
  "truthy JNull = False"
| "truthy (JBool b) = b"
| "truthy (JInt i) = (i \<noteq> 0)"
| "truthy (JFloat r) = (r \<noteq> 0)"
| "truthy (JStr s) = (s \<noteq> [])"
| "truthy (JList xs) = (xs \<noteq> [])"
| "truthy (JObj d) = (d \<noteq> [])"

definition py_or :: "json \<Rightarrow> json \<Rightarrow> json" where
  "py_or x dflt = (if truthy x then x else dflt)"

subsection \<open>Strings\<close>

definition lower_char :: "char \<Rightarrow> char" where
  "lower_char c =
     (case map_of (zip ''ABCDEFGHIJKLMNOPQRSTUVWXYZ'' ''abcdefghijklmnopqrstuvwxyz'') c of
        Some l \<Rightarrow> l
      | None \<Rightarrow> c)"

text \<open>\<^verbatim>\<open>s.lower()\<close>\<close>

definition lower :: "string \<Rightarrow> string" where
  "lower s = map lower_char s"

definition is_space :: "char \<Rightarrow> bool" where
  "is_space c = (c \<in> set [CHR '' '', CHR 0x09, CHR 0x0A, CHR 0x0B, CHR 0x0C, CHR 0x0D,
                           CHR 0x1C, CHR 0x1D, CHR 0x1E, CHR 0x1F])"

text \<open>\<^verbatim>\<open>s.strip()\<close>\<close>

definition strip :: "string \<Rightarrow> string" where
  "strip s = rev (dropWhile is_space (rev (dropWhile is_space s)))"

text \<open>\<^verbatim>\<open>s.replace(c, "")\<close> for a one-character \<^verbatim>\<open>c\<close>.\<close>

definition remove_char :: "char \<Rightarrow> string \<Rightarrow> string" where
  "remove_char c s = filter (\<lambda>x. x \<noteq> c) s"

fun starts_with :: "string \<Rightarrow> string \<Rightarrow> bool" where
  "starts_with [] s = True"
| "starts_with (p # ps) [] = False"
| "starts_with (p # ps) (c # cs) = (p = c \<and> starts_with ps cs)"

text \<open>\<^verbatim>\<open>sub in s\<close> for two strings.\<close>

fun str_contains :: "string \<Rightarrow> string \<Rightarrow> bool" where
  "str_contains sub [] = (sub = [])"
| "str_contains sub (c # cs) = (starts_with sub (c # cs) \<or> str_contains sub cs)"

subsection \<open>Decimal digits\<close>

definition digit_char :: "nat \<Rightarrow> char" where
  "digit_char d = ''0123456789'' ! (d mod 10)"

definition is_digit :: "char \<Rightarrow> bool" where
  "is_digit c = (c \<in> set ''0123456789'')"

definition digit_val :: "char \<Rightarrow> nat" where
  "digit_val c =
     (case map_of (zip ''0123456789'' [0, 1, 2, 3, 4, 5, 6, 7, 8, 9]) c of
        Some d \<Rightarrow> d
      | None \<Rightarrow> 0)"

fun digits :: "nat \<Rightarrow> string" where
  "digits n = (if n < 10 then [digit_char n] else digits (n div 10) @ [digit_char (n mod 10)])"

declare digits.simps [simp del]

definition nat_of_digits :: "string \<Rightarrow> nat" where
  "nat_of_digits ds = foldl (\<lambda>a c. 10 * a + digit_val c) 0 ds"

text \<open>\<^verbatim>\<open>str(i)\<close> for an int.\<close>

definition str_int :: "int \<Rightarrow> string" where
  "str_int i = (if i < 0 then CHR ''-'' # digits (nat (- i)) else digits (nat i))"

text \<open>
  \<^verbatim>\<open>str(v)\<close>. The text of a float, a list or a dict (Python's \<^verbatim>\<open>repr\<close>) is not
  modelled: it is the parameter \<open>repr\<close>, and every statement below holds for any choice of it.
\<close>

definition py_str :: "(json \<Rightarrow> string) \<Rightarrow> json \<Rightarrow> string" where
  "py_str repr v =
     (case v of
        JStr s \<Rightarrow> s
      | JInt i \<Rightarrow> str_int i
      | JBool b \<Rightarrow> (if b then ''True'' else ''False'')
      | JNull \<Rightarrow> ''None''
      | _ \<Rightarrow> repr v)"

subsection \<open>Number formatting\<close>

text \<open>
  The format specifications \<^verbatim>\<open>.2f\<close> and \<^verbatim>\<open>,.0f\<close> round the exact value of their argument
  to the nearest decimal, ties to even.
\<close>

definition round_half_even :: "rat \<Rightarrow> int" where
  "round_half_even x =
     (let f = \<lfloor>x\<rfloor>; d = x - of_int f
      in if d < 1 / 2 then f
         else if 1 / 2 < d then f + 1
         else if even f then f else f + 1)"

text \<open>\<^verbatim>\<open>f"{x:.2f}"\<close>\<close>

definition fmt_2f :: "rat \<Rightarrow> string" where
  "fmt_2f x =
     (let n = nat (round_half_even (\<bar>x\<bar> * 100))
      in (if x < 0 then ''-'' else '''') @ digits (n div 100) @ ''.''
         @ [digit_char (n mod 100 div 10), digit_char (n mod 10)])"

function group3 :: "string \<Rightarrow> string" where
  "group3 ds =
     (if length ds \<le> 3 then ds
      else group3 (take (length ds - 3) ds) @ CHR '','' # drop (length ds - 3) ds)"
  by pat_completeness auto
termination
  by (relation "measure length") auto

declare group3.simps [simp del]

text \<open>\<^verbatim>\<open>f"{x:,.0f}"\<close>\<close>

definition fmt_comma0 :: "rat \<Rightarrow> string" where
  "fmt_comma0 x =
     (if x < 0 then ''-'' else '''') @ group3 (digits (nat (round_half_even \<bar>x\<bar>)))"

subsection \<open>Number parsing\<close>

text \<open>
  \<^verbatim>\<open>float(s)\<close> on a string: surrounding white space, a sign, decimal digits with an
  optional fraction and an optional exponent; single underscores are allowed between two
  digits. The result is \<open>None\<close> where Python raises \<^verbatim>\<open>ValueError\<close>. The spellings of
  infinity and NaN denote no finite value and are not accepted by the model.
\<close>

fun drop_underscores :: "bool \<Rightarrow> string \<Rightarrow> string option" where
  "drop_underscores prev [] = Some []"
| "drop_underscores prev (c # cs) =
     (if c = CHR ''_'' then
        (case cs of
           [] \<Rightarrow> None
         | n # _ \<Rightarrow> if prev \<and> is_digit n then drop_underscores False cs else None)
      else map_option (\<lambda>r. c # r) (drop_underscores (is_digit c) cs))"

definition split_sign :: "string \<Rightarrow> bool \<times> string" where
  "split_sign s =
     (case s of
        [] \<Rightarrow> (False, [])
      | c # r \<Rightarrow> if c = CHR ''-'' then (True, r) else if c = CHR ''+'' then (False, r) else (False, s))"

definition parse_exponent :: "string \<Rightarrow> int option" where
  "parse_exponent r =
     (case r of
        [] \<Rightarrow> Some 0
      | c # r' \<Rightarrow>
          if c = CHR ''e'' \<or> c = CHR ''E'' then
            (case split_sign r' of
               (neg, d) \<Rightarrow>
                 if d \<noteq> [] \<and> list_all is_digit d
                 then Some (if neg then - int (nat_of_digits d) else int (nat_of_digits d))
                 else None)
          else None)"

definition scale10 :: "rat \<Rightarrow> int \<Rightarrow> rat" where
  "scale10 x e = (if 0 \<le> e then x * 10 ^ nat e else x / 10 ^ nat (- e))"

definition py_float_str :: "string \<Rightarrow> rat option" where
  "py_float_str s =
     (case drop_underscores False (strip s) of
        None \<Rightarrow> None
      | Some t \<Rightarrow>
          (case split_sign t of
             (neg, u) \<Rightarrow>
               let ip = takeWhile is_digit u;
                   r1 = dropWhile is_digit u;
                   fp = (case r1 of [] \<Rightarrow> [] | c # r \<Rightarrow> if c = CHR ''.'' then takeWhile is_digit r else []);
                   r2 = (case r1 of [] \<Rightarrow> [] | c # r \<Rightarrow> if c = CHR ''.'' then dropWhile is_digit r else r1)
               in if ip = [] \<and> fp = [] then None
                  else (case parse_exponent r2 of
                          None \<Rightarrow> None
                        | Some ex \<Rightarrow>
                            Some (scale10 ((if neg then - 1 else 1)
                                    * (of_nat (nat_of_digits (ip @ fp)) / 10 ^ length fp)) ex))))"

text \<open>
  \<^verbatim>\<open>float(v)\<close>. An int too large for a double raises \<^verbatim>\<open>OverflowError\<close>: that is every int
  of magnitude at least \<open>2^1024 - 2^970\<close>, the first to round up to \<open>2^1024\<close>.
\<close>

definition py_float :: "json \<Rightarrow> pyerror + rat" where
  "py_float v =
     (case v of
        JInt i \<Rightarrow> (if \<bar>i\<bar> < 2 ^ 1024 - 2 ^ 970 then Inr (of_int i) else Inl OverflowError)
      | JFloat r \<Rightarrow> Inr r
      | JBool b \<Rightarrow> Inr (if b then 1 else 0)
      | JStr s \<Rightarrow> (case py_float_str s of Some r \<Rightarrow> Inr r | None \<Rightarrow> Inl ValueError)
      | _ \<Rightarrow> Inl TypeError)"

text \<open>\<^verbatim>\<open>isinstance(v, (int, float))\<close>; \<^verbatim>\<open>bool\<close> is a subclass of \<^verbatim>\<open>int\<close>.\<close>

fun is_number :: "json \<Rightarrow> bool" where
  "is_number (JInt i) = True"
| "is_number (JFloat r) = True"
| "is_number (JBool b) = True"
| "is_number v = False"

text \<open>
  \<^verbatim>\<open>sorted(xs, key=k, reverse=True)\<close>: Python's sort is stable, and \<^verbatim>\<open>reverse=True\<close> keeps
  the original order of elements with equal keys. It is modelled by a stable insertion
  sort into descending order.
\<close>

fun insort_desc :: "('a \<Rightarrow> rat) \<Rightarrow> 'a \<Rightarrow> 'a list \<Rightarrow> 'a list" where
  "insort_desc k x [] = [x]"
| "insort_desc k x (y # ys) = (if k y \<le> k x then x # y # ys else y # insort_desc k x ys)"

definition sorted_desc :: "('a \<Rightarrow> rat) \<Rightarrow> 'a list \<Rightarrow> 'a list" where
  "sorted_desc k xs = foldr (insort_desc k) xs []"

section \<open>Configuration\<close>

definition SORT_MODE :: string where
  "SORT_MODE = ''ror''"

definition MIN_APY :: rat where
  "MIN_APY = 5"

definition MIN_TVL :: rat where
  "MIN_TVL = 500000"

definition MIN_LIQUIDITY :: rat where
  "MIN_LIQUIDITY = 100000"

definition FOCUS_PROTOCOLS :: "string set" where
  "FOCUS_PROTOCOLS =
     {''beefy'', ''yearn'', ''radiant'', ''aave'', ''aave-v3'', ''venus'', ''morpho'',
      ''pancakeswap'', ''raydium'', ''lido'', ''marinade'', ''eigenlayer'',
      ''kamino'', ''krystal'', ''turbo''}"

definition LAYER2_CHAINS :: "string set" where
  "LAYER2_CHAINS = {''arbitrum'', ''optimism'', ''zksync'', ''base'', ''scroll'', ''linea''}"

definition OPPORTUNITY_TYPE_MAP :: "(string \<times> string) list" where
  "OPPORTUNITY_TYPE_MAP =
     [(''beefy'', ''Vault / Auto-compounding''),
      (''yearn'', ''Vault / Auto-compounding''),
      (''lido'', ''Staking / Restaking''),
      (''marinade'', ''Staking / Restaking''),
      (''kamino'', ''Vault / Auto-compounding''),
      (''krystal'', ''Vault / Auto-compounding''),
      (''turbo'', ''Yield Farming''),
      (''raydium'', ''Yield Farming''),
      (''pancakeswap'', ''Yield Farming''),
      (''aave'', ''Lending / Borrowing''),
      (''aave-v3'', ''Lending / Borrowing''),
      (''venus'', ''Lending / Borrowing''),
      (''morpho'', ''Lending / Borrowing''),
      (''radiant'', ''Lending / Borrowing''),
      (''eigenlayer'', ''Staking / Restaking'')]"

section \<open>Data models\<close>

record YieldEntry =
  project :: string
  chain :: string
  apy_str :: string
  symbol :: string
  tvl_str :: string
  risk :: string
  pool_id :: string
  ror :: rat
  type :: string

definition apy_value :: "YieldEntry \<Rightarrow> rat" where
  "apy_value e =
     (case py_float_str (strip (remove_char (CHR ''%'') (apy_str e))) of
        Some r \<Rightarrow> r
      | None \<Rightarrow> 0)"

definition tvl_value :: "YieldEntry \<Rightarrow> rat" where
  "tvl_value e =
     (case py_float_str (strip (remove_char (CHR '','') (remove_char (CHR ''$'') (tvl_str e)))) of
        Some r \<Rightarrow> r
      | None \<Rightarrow> 0)"

record MemeEntry =
  symbol :: string
  chain :: string
  price_usd :: string
  liquidity_usd :: string
  volume_24h_usd :: string
  change_24h_pct :: string
  risk :: string

section \<open>Utilities\<close>

text \<open>
  What the HTTP request can do. \<^verbatim>\<open>requests.get\<close> raises (no connection, timeout), or it
  returns a response with a status code; \<^verbatim>\<open>raise_for_status\<close> raises for the codes 400 to
  599; \<^verbatim>\<open>res.json()\<close> raises when the body is not JSON and returns the decoded value
  otherwise. The strings are the exception texts.
\<close>

datatype body = NotJson string | Json json

datatype http_outcome = RequestFailed string | Response nat string body

definition safe_request :: "http_outcome \<Rightarrow> json" where
  "safe_request out =
     (case out of
        RequestFailed e \<Rightarrow> JObj [(''error'', JStr e)]
      | Response status e b \<Rightarrow>
          if 400 \<le> status \<and> status < 600 then JObj [(''error'', JStr e)]
          else (case b of
                  NotJson e' \<Rightarrow> JObj [(''error'', JStr e')]
                | Json v \<Rightarrow> v))"

definition risk_score :: "rat \<Rightarrow> rat \<Rightarrow> string \<Rightarrow> string" where
  "risk_score apy tvl proj =
     (let pj = lower proj
      in if pj \<in> FOCUS_PROTOCOLS then ''Low''
         else if tvl > 50000000 \<and> apy < 15 then ''Low''
         else if 5000000 \<le> tvl \<and> tvl \<le> 50000000 \<and> 15 \<le> apy \<and> apy \<le> 50 then ''Medium''
         else if tvl < 5000000 \<or> apy > 50 then ''High''
         else ''Medium'')"

definition risk_factor :: "(string \<times> rat) list" where
  "risk_factor = [(''Low'', 1), (''Medium'', 6 / 10), (''High'', 3 / 10)]"

definition calc_ror :: "rat \<Rightarrow> string \<Rightarrow> rat" where
  "calc_ror apy score = apy * (case map_of risk_factor score of Some f \<Rightarrow> f | None \<Rightarrow> 5 / 10)"

text \<open>\<open>sort_key\<close> reads the module constant \<open>SORT_MODE\<close>; \<open>sort_key_in\<close> is its body for a given mode.\<close>

definition sort_key_in :: "string \<Rightarrow> YieldEntry \<Rightarrow> rat" where
  "sort_key_in mode entry =
     (if mode \<in> set [''apy'', ''apr''] then apy_value entry
      else if mode = ''tvl'' then tvl_value entry
      else ror entry)"

definition sort_key :: "YieldEntry \<Rightarrow> rat" where
  "sort_key entry = sort_key_in SORT_MODE entry"

section \<open>The yield classifier\<close>

text \<open>
  The value of \<^verbatim>\<open>classify_yield_opportunities\<close>: the dict with the keys \<^verbatim>\<open>long_term\<close>,
  \<^verbatim>\<open>short_term\<close>, \<^verbatim>\<open>focus\<close> and \<^verbatim>\<open>layer2\<close>, in this insertion order.
\<close>

record buckets =
  long_term :: "YieldEntry list"
  short_term :: "YieldEntry list"
  focus :: "YieldEntry list"
  layer2 :: "YieldEntry list"

definition empty_buckets :: buckets where
  "empty_buckets = \<lparr>long_term = [], short_term = [], focus = [], layer2 = []\<rparr>"

text \<open>
  The head of both scanners: \<^verbatim>\<open>if "error" in data: print(... data['error'] ...)\<close>, leaving
  with the empty result, and then \<^verbatim>\<open>data.get(...)\<close>. \<open>Inr None\<close> is the reported feed error,
  \<open>Inr (Some d)\<close> a dict without the key \<^verbatim>\<open>error\<close>. A value that is not a dict raises:
  \<^verbatim>\<open>in\<close> raises \<^verbatim>\<open>TypeError\<close> on a value that is not a container; a string or a list that
  contains \<^verbatim>\<open>"error"\<close> raises \<^verbatim>\<open>TypeError\<close> at \<^verbatim>\<open>data['error']\<close>, any other string or list
  \<^verbatim>\<open>AttributeError\<close> at \<^verbatim>\<open>data.get\<close>. The printed line is not part of the model.
\<close>

definition feed_dict :: "json \<Rightarrow> pyerror + pydict option" where
  "feed_dict data =
     (case data of
        JObj d \<Rightarrow> (if map_of d ''error'' \<noteq> None then Inr None else Inr (Some d))
      | JStr s \<Rightarrow> Inl (if str_contains ''error'' s then TypeError else AttributeError)
      | JList xs \<Rightarrow> Inl (if JStr ''error'' \<in> set xs then TypeError else AttributeError)
      | _ \<Rightarrow> Inl TypeError)"

text \<open>
  The body of the loop over the pools up to the construction of the entry.
  \<open>Inr None\<close> is \<^verbatim>\<open>continue\<close>.
\<close>

definition pool_entry :: "(json \<Rightarrow> string) \<Rightarrow> json \<Rightarrow> pyerror + YieldEntry option" where
  "pool_entry repr raw =
     (case raw of
        JObj d \<Rightarrow>
          (let apy_val = dict_get d ''apy'' JNull;
               tvl_val = dict_get d ''tvlUsd'' (JInt 0);
               project' = py_str repr (py_or (dict_get d ''project'' (JStr [])) (JStr []));
               chain' = lower (py_str repr (py_or (dict_get d ''chain'' (JStr ''N/A'')) (JStr ''N/A'')));
               symbol' = py_str repr (py_or (dict_get d ''symbol'' (JStr ''N/A'')) (JStr ''N/A''));
               pool_id' = py_str repr (py_or (dict_get d ''pool'' (JStr [])) (JStr []))
           in if \<not> is_number apy_val \<or> \<not> is_number tvl_val then Inr None
              else
                (case py_float apy_val of
                   Inl e \<Rightarrow> Inl e
                 | Inr apy \<Rightarrow>
                     (case py_float tvl_val of
                        Inl e \<Rightarrow> Inl e
                      | Inr tvl \<Rightarrow>
                          if apy < MIN_APY \<or> tvl < MIN_TVL then Inr None
                          else
                            (let score = risk_score apy tvl project';
                                 ror' = calc_ror apy score;
                                 type_str =
                                   (case map_of OPPORTUNITY_TYPE_MAP (lower project') of
                                      Some t \<Rightarrow> t
                                    | None \<Rightarrow> ''Unknown'')
                             in Inr (Some \<lparr>project = project', chain = chain',
                                          apy_str = fmt_2f apy @ ''%'', symbol = symbol',
                                          tvl_str = ''$'' @ fmt_comma0 tvl, risk = score,
                                          pool_id = pool_id', ror = ror',
                                          type = type_str\<rparr>)))))
      | _ \<Rightarrow> Inr None)"

text \<open>The four appends that end the body of the loop.\<close>

definition place :: "YieldEntry \<Rightarrow> buckets \<Rightarrow> buckets" where
  "place entry b =
     (let b1 = (if lower (project entry) \<in> FOCUS_PROTOCOLS
                then b\<lparr>focus := focus b @ [entry]\<rparr> else b);
          b2 = (if YieldEntry.risk entry = ''Low'' \<and> lower (project entry) \<notin> FOCUS_PROTOCOLS
                then b1\<lparr>long_term := long_term b1 @ [entry]\<rparr>
                else if YieldEntry.risk entry \<noteq> ''Low'' \<and> lower (project entry) \<notin> FOCUS_PROTOCOLS
                then b1\<lparr>short_term := short_term b1 @ [entry]\<rparr>
                else b1)
      in if YieldEntry.chain entry \<in> LAYER2_CHAINS
         then b2\<lparr>layer2 := layer2 b2 @ [entry]\<rparr> else b2)"

fun classify_loop :: "(json \<Rightarrow> string) \<Rightarrow> json list \<Rightarrow> buckets \<Rightarrow> pyerror + buckets" where
  "classify_loop repr [] b = Inr b"
| "classify_loop repr (raw # pools) b =
     (case pool_entry repr raw of
        Inl e \<Rightarrow> Inl e
      | Inr None \<Rightarrow> classify_loop repr pools b
      | Inr (Some entry) \<Rightarrow> classify_loop repr pools (place entry b))"

text \<open>
  \<open>classify_in mode\<close> is the body of \<^verbatim>\<open>classify_yield_opportunities\<close> under the sort mode
  \<open>mode\<close>; the function itself runs under the module constant.
\<close>

definition classify_in :: "string \<Rightarrow> (json \<Rightarrow> string) \<Rightarrow> http_outcome \<Rightarrow> pyerror + buckets" where
  "classify_in mode repr out =
     (case feed_dict (safe_request out) of
        Inl e \<Rightarrow> Inl e
      | Inr None \<Rightarrow> Inr empty_buckets
      | Inr (Some d) \<Rightarrow>
          (let pools = (case dict_get d ''data'' (JList []) of JList xs \<Rightarrow> xs | _ \<Rightarrow> [])
           in case classify_loop repr pools empty_buckets of
                Inl e \<Rightarrow> Inl e
              | Inr b \<Rightarrow>
                  Inr \<lparr>long_term = take 10 (sorted_desc (sort_key_in mode) (long_term b)),
                       short_term = take 10 (sorted_desc (sort_key_in mode) (short_term b)),
                       focus = take 10 (sorted_desc (sort_key_in mode) (focus b)),
                       layer2 = take 10 (sorted_desc (sort_key_in mode) (layer2 b))\<rparr>))"

definition classify_yield_opportunities :: "(json \<Rightarrow> string) \<Rightarrow> http_outcome \<Rightarrow> pyerror + buckets" where
  "classify_yield_opportunities repr out = classify_in SORT_MODE repr out"

section \<open>The meme-coin scanner\<close>

definition CHAIN_ID_MAP :: "(int \<times> string) list" where
  "CHAIN_ID_MAP =
     [(1, ''eth''), (56, ''bsc''), (101, ''sol''), (1001, ''sui''), (108, ''tao''),
      (42161, ''arbitrum''), (10, ''optimism''), (8453, ''base'')]"

definition MEME_CHAINS :: "string set" where
  "MEME_CHAINS = {''sui'', ''tao'', ''eth'', ''bsc'', ''sol'', ''base'', ''optimism'', ''arbitrum''}"

definition queries :: "string list" where
  "queries = [''pepe'', ''doge'', ''shiba'', ''floki'', ''bonk'']"

text \<open>
  The int a value is equal to as a dict key, if any: \<^verbatim>\<open>True == 1\<close> and \<^verbatim>\<open>1.0 == 1\<close> with
  equal hashes.
\<close>

definition int_key :: "json \<Rightarrow> int option" where
  "int_key v =
     (case v of
        JInt i \<Rightarrow> Some i
      | JBool b \<Rightarrow> Some (if b then 1 else 0)
      | JFloat r \<Rightarrow> (if r = of_int \<lfloor>r\<rfloor> then Some \<lfloor>r\<rfloor> else None)
      | _ \<Rightarrow> None)"

text \<open>
  \<^verbatim>\<open>CHAIN_ID_MAP.get(chain_id, str(chain_id)).lower()\<close>; a list or a dict is not hashable
  and raises \<^verbatim>\<open>TypeError\<close>.
\<close>

definition chain_name :: "(json \<Rightarrow> string) \<Rightarrow> json \<Rightarrow> pyerror + string" where
  "chain_name repr chain_id =
     (case chain_id of
        JList xs \<Rightarrow> Inl TypeError
      | JObj d \<Rightarrow> Inl TypeError
      | _ \<Rightarrow>
          Inr (lower (case Option.bind (int_key chain_id) (map_of CHAIN_ID_MAP) of
                        Some n \<Rightarrow> n
                      | None \<Rightarrow> py_str repr chain_id)))"

text \<open>\<^verbatim>\<open>float(p.get(outer, {}).get(inner, 0) or 0)\<close>\<close>

definition nested_float :: "pydict \<Rightarrow> string \<Rightarrow> string \<Rightarrow> pyerror + rat" where
  "nested_float p outer inner =
     (case dict_get p outer (JObj []) of
        JObj d \<Rightarrow> py_float (py_or (dict_get d inner (JInt 0)) (JInt 0))
      | _ \<Rightarrow> Inl AttributeError)"

type_synonym candidate = "pydict \<times> rat \<times> rat \<times> rat"

text \<open>
  The body of the loop over the pairs. The state is the list \<^verbatim>\<open>candidates\<close> and the local
  variable \<^verbatim>\<open>chain\<close>, which is assigned before the pair is filtered and read again only
  after the loop.
\<close>

definition scan_pair ::
  "(json \<Rightarrow> string) \<Rightarrow> json \<Rightarrow> candidate list \<times> string option
     \<Rightarrow> pyerror + candidate list \<times> string option" where
  "scan_pair repr p st =
     (case p of
        JObj d \<Rightarrow>
          (case chain_name repr (dict_get d ''chainId'' (JInt 0)) of
             Inl e \<Rightarrow> Inl e
           | Inr ch \<Rightarrow>
               if ch \<notin> MEME_CHAINS then Inr (fst st, Some ch)
               else
                 (case nested_float d ''liquidity'' ''usd'' of
                    Inl e \<Rightarrow> Inl e
                  | Inr liq \<Rightarrow>
                      (case nested_float d ''volume'' ''h24'' of
                         Inl e \<Rightarrow> Inl e
                       | Inr vol24 \<Rightarrow>
                           (case nested_float d ''priceChange'' ''h24'' of
                              Inl e \<Rightarrow> Inl e
                            | Inr change24 \<Rightarrow>
                                if liq \<ge> MIN_LIQUIDITY \<and> vol24 \<ge> (1 / 10) * liq
                                then Inr (fst st @ [(d, liq, vol24, change24)], Some ch)
                                else Inr (fst st, Some ch)))))
      | _ \<Rightarrow> Inr st)"

fun scan_pairs ::
  "(json \<Rightarrow> string) \<Rightarrow> json list \<Rightarrow> candidate list \<times> string option
     \<Rightarrow> pyerror + candidate list \<times> string option" where
  "scan_pairs repr [] st = Inr st"
| "scan_pairs repr (p # ps) st =
     (case scan_pair repr p st of
        Inl e \<Rightarrow> Inl e
      | Inr st' \<Rightarrow> scan_pairs repr ps st')"

text \<open>The entry built from a kept candidate; \<open>ch\<close> is the value of the variable \<^verbatim>\<open>chain\<close>.\<close>

definition meme_entry :: "(json \<Rightarrow> string) \<Rightarrow> string \<Rightarrow> candidate \<Rightarrow> MemeEntry" where
  "meme_entry repr ch c =
     (case c of
        (obj, liq, vol24, change24) \<Rightarrow>
          (let base_token = (case dict_get obj ''baseToken'' (JObj []) of JObj b \<Rightarrow> b | _ \<Rightarrow> []);
               symbol' = py_str repr (py_or (dict_get base_token ''symbol'' (JStr ''?'')) (JStr ''?''));
               price_usd' = py_str repr (py_or (dict_get obj ''priceUsd'' (JStr ''N/A'')) (JStr ''N/A''));
               score = (if change24 > 0 \<and> liq > 1000000 then ''Low''
                        else if change24 < - 30 then ''High''
                        else ''Medium'')
           in \<lparr>symbol = symbol', chain = ch, price_usd = price_usd',
               liquidity_usd = ''$'' @ fmt_comma0 liq,
               volume_24h_usd = ''$'' @ fmt_comma0 vol24,
               change_24h_pct = fmt_2f change24 @ ''%'',
               risk = score\<rparr>))"

text \<open>\<^verbatim>\<open>key=lambda x: x[2]\<close>\<close>

definition volume_of :: "candidate \<Rightarrow> rat" where
  "volume_of x = fst (snd (snd x))"

text \<open>
  The body of the loop over the search terms, on the outcome of the term's request. The
  state is the list \<^verbatim>\<open>results\<close> and the variable \<^verbatim>\<open>chain\<close>.
\<close>

definition scan_query ::
  "(json \<Rightarrow> string) \<Rightarrow> http_outcome \<Rightarrow> MemeEntry list \<times> string option
     \<Rightarrow> pyerror + MemeEntry list \<times> string option" where
  "scan_query repr out st =
     (case feed_dict (safe_request out) of
        Inl e \<Rightarrow> Inl e
      | Inr None \<Rightarrow> Inr st
      | Inr (Some d) \<Rightarrow>
          (case dict_get d ''pairs'' (JList []) of
             JList pairs \<Rightarrow>
               (case scan_pairs repr pairs ([], snd st) of
                  Inl e \<Rightarrow> Inl e
                | Inr (cands, chv) \<Rightarrow>
                    (let top = take 3 (sorted_desc volume_of cands)
                     in if top = [] then Inr (fst st, chv)
                        else (case chv of
                                None \<Rightarrow> Inl UnboundLocalError
                              | Some ch \<Rightarrow> Inr (fst st @ map (meme_entry repr ch) top, chv))))
           | _ \<Rightarrow> Inr st))"

fun scan_queries ::
  "(json \<Rightarrow> string) \<Rightarrow> (string \<Rightarrow> http_outcome) \<Rightarrow> string list
     \<Rightarrow> MemeEntry list \<times> string option \<Rightarrow> pyerror + MemeEntry list \<times> string option" where
  "scan_queries repr feed [] st = Inr st"
| "scan_queries repr feed (q # qs) st =
     (case scan_query repr (feed q) st of
        Inl e \<Rightarrow> Inl e
      | Inr st' \<Rightarrow> scan_queries repr feed qs st')"

text \<open>\<open>feed q\<close> is the outcome of the request for the search term \<open>q\<close>.\<close>

definition get_meme_coins :: "(json \<Rightarrow> string) \<Rightarrow> (string \<Rightarrow> http_outcome) \<Rightarrow> pyerror + MemeEntry list" where
  "get_meme_coins repr feed =
     (case scan_queries repr feed queries ([], None) of
        Inl e \<Rightarrow> Inl e
      | Inr st \<Rightarrow> Inr (take 12 (fst st)))"

section \<open>Top picks\<close>

definition get_top_picks :: "YieldEntry list \<Rightarrow> YieldEntry list" where
  "get_top_picks all_opps = take 5 (sorted_desc ror all_opps)"

text \<open>
  The caller in \<^verbatim>\<open>app.py\<close> extends one list with every value of the dict, in its order.
\<close>

definition all_opportunities :: "buckets \<Rightarrow> YieldEntry list" where
  "all_opportunities opps = long_term opps @ short_term opps @ focus opps @ layer2 opps"

section \<open>The scanner's result, term by term\<close>

text \<open>
  The specification describes the result of the meme scanner term by term: the pairs of a
  term's response that survive the filters, sorted and cut to three, then all terms
  concatenated. The three definitions below follow that description, to be compared with
  the loops above. \<open>term_pairs\<close> is the list of pairs a request contributes (none when the
  feed reports an error or sends no list), \<open>kept_candidate\<close> the filter of one pair, and
  \<open>last_chain\<close> the chain name resolved for the last pair of a list that is a dict, which
  is what the variable \<^verbatim>\<open>chain\<close> holds when the entries are built.
\<close>

definition term_pairs :: "http_outcome \<Rightarrow> json list" where
  "term_pairs out =
     (case safe_request out of
        JObj d \<Rightarrow>
          if map_of d ''error'' \<noteq> None then []
          else (case dict_get d ''pairs'' (JList []) of JList pairs \<Rightarrow> pairs | _ \<Rightarrow> [])
      | _ \<Rightarrow> [])"

definition kept_candidate :: "(json \<Rightarrow> string) \<Rightarrow> json \<Rightarrow> candidate option" where
  "kept_candidate repr p =
     (case p of
        JObj d \<Rightarrow>
          (case chain_name repr (dict_get d ''chainId'' (JInt 0)) of
             Inl e \<Rightarrow> None
           | Inr ch \<Rightarrow>
               if ch \<in> MEME_CHAINS then
                 (case (nested_float d ''liquidity'' ''usd'', nested_float d ''volume'' ''h24'',
                        nested_float d ''priceChange'' ''h24'') of
                    (Inr liq, Inr vol24, Inr change24) \<Rightarrow>
                      if MIN_LIQUIDITY \<le> liq \<and> (1 / 10) * liq \<le> vol24
                      then Some (d, liq, vol24, change24) else None
                  | _ \<Rightarrow> None)
               else None)
      | _ \<Rightarrow> None)"

fun last_chain :: "(json \<Rightarrow> string) \<Rightarrow> json list \<Rightarrow> string option \<Rightarrow> string option" where
  "last_chain repr [] c = c"
| "last_chain repr (p # ps) c =
     last_chain repr ps
       (case p of
          JObj d \<Rightarrow>
            (case chain_name repr (dict_get d ''chainId'' (JInt 0)) of
               Inl e \<Rightarrow> c
             | Inr ch \<Rightarrow> Some ch)
        | _ \<Rightarrow> c)"

definition term_chain :: "(json \<Rightarrow> string) \<Rightarrow> http_outcome \<Rightarrow> string" where
  "term_chain repr out = (case last_chain repr (term_pairs out) None of Some ch \<Rightarrow> ch | None \<Rightarrow> [])"

definition term_candidates :: "(json \<Rightarrow> string) \<Rightarrow> http_outcome \<Rightarrow> candidate list" where
  "term_candidates repr out = List.map_filter (kept_candidate repr) (term_pairs out)"

section \<open>Sample inputs\<close>

text \<open>
  Two pairs that pass the filters and a feed that answers the first two search terms with
  one of them each and fails on the others. They serve to instantiate the statements on
  the meme scanner.
\<close>

definition sample_pair_eth :: pydict where
  "sample_pair_eth =
     [(''chainId'', JInt 1), (''liquidity'', JObj [(''usd'', JInt 200000)]),
      (''volume'', JObj [(''h24'', JInt 20000)])]"

definition sample_pair_bsc :: pydict where
  "sample_pair_bsc =
     [(''chainId'', JInt 56), (''liquidity'', JObj [(''usd'', JInt 300000)]),
      (''volume'', JObj [(''h24'', JInt 900000)])]"

definition sample_feed :: "string \<Rightarrow> http_outcome" where
  "sample_feed q =
     (if q = ''pepe'' then Response 200 [] (Json (JObj [(''pairs'', JList [JObj sample_pair_eth])]))
      else if q = ''doge'' then Response 200 [] (Json (JObj [(''pairs'', JList [JObj sample_pair_bsc])]))
      else RequestFailed ''timeout'')"

definition sample_entry_eth :: MemeEntry where
  "sample_entry_eth =
     \<lparr>symbol = ''?'', chain = ''eth'', price_usd = ''N/A'', liquidity_usd = ''$200,000'',
      volume_24h_usd = ''$20,000'', change_24h_pct = ''0.00%'', risk = ''Medium''\<rparr>"

definition sample_entry_bsc :: MemeEntry where
  "sample_entry_bsc =
     \<lparr>symbol = ''?'', chain = ''bsc'', price_usd = ''N/A'', liquidity_usd = ''$300,000'',
      volume_24h_usd = ''$900,000'', change_24h_pct = ''0.00%'', risk = ''Medium''\<rparr>"

section \<open>Properties of the library model\<close>

lemma length_insort_desc: "length (insort_desc k x ys) = Suc (length ys)"
  by (induction ys) simp_all

lemma length_sorted_desc: "length (sorted_desc k xs) = length xs"
  by (induction xs) (simp_all add: sorted_desc_def length_insort_desc)

lemma mset_insort_desc: "mset (insort_desc k x ys) = add_mset x (mset ys)"
  by (induction ys) simp_all

lemma mset_sorted_desc: "mset (sorted_desc k xs) = mset xs"
  by (induction xs) (simp_all add: sorted_desc_def mset_insort_desc)

lemma set_insort_desc: "set (insort_desc k x ys) = insert x (set ys)"
  by (induction ys) auto

lemma descending_insort_desc:
  "sorted_wrt (\<lambda>a b. k b \<le> k a) ys \<Longrightarrow> sorted_wrt (\<lambda>a b. k b \<le> k a) (insort_desc k x ys)"
  by (induction ys) (auto simp: set_insort_desc)

lemma descending_sorted_desc: "sorted_wrt (\<lambda>a b. k b \<le> k a) (sorted_desc k xs)"
  by (induction xs) (simp_all add: sorted_desc_def descending_insort_desc)

text \<open>Stability: the elements of one key keep their order.\<close>

lemma filter_insort_desc:
  "filter (\<lambda>e. k e = v) (insort_desc k x ys) =
     (if k x = v then x # filter (\<lambda>e. k e = v) ys else filter (\<lambda>e. k e = v) ys)"
  by (induction ys) auto

lemma stable_sorted_desc:
  "filter (\<lambda>e. k e = v) (sorted_desc k xs) = filter (\<lambda>e. k e = v) xs"
  by (induction xs) (simp_all add: sorted_desc_def filter_insort_desc)

section \<open>Scoring primitives\<close>


lemma lower_uniswap: "lower ''uniswap'' = ''uniswap''"
  by (simp add: lower_def lower_char_def)

lemma uniswap_not_focus: "''uniswap'' \<notin> FOCUS_PROTOCOLS"
  by (simp add: FOCUS_PROTOCOLS_def)

text \<open>
  Claim C2, as stated: outside the focus set, a tvl between 5,000,000 and 50,000,000 with
  an apy above 50 falls through to the final \<^verbatim>\<open>return "Medium"\<close>. It does not: at apy 60
  and tvl 10,000,000 the test \<^verbatim>\<open>tvl < 5_000_000 or apy > 50\<close> holds and the tier is High.
\<close>

theorem risk_score_gap_counterexample:
  "lower ''uniswap'' \<notin> FOCUS_PROTOCOLS \<and> (5000000::rat) \<le> 10000000
     \<and> (10000000::rat) \<le> 50000000 \<and> (50::rat) < 60
     \<and> risk_score 60 10000000 ''uniswap'' \<noteq> ''Medium''"
  by (simp add: risk_score_def Let_def lower_uniswap uniswap_not_focus)

text \<open>
  Claim C2, amended: for every project outside the focus set, \<open>risk_score\<close> on a tvl
  between 5,000,000 and 50,000,000 with an apy above 50 returns High, through the branch
  \<^verbatim>\<open>tvl < 5_000_000 or apy > 50\<close>.
\<close>

theorem risk_score_mid_tvl_high_apy:
  "lower p \<notin> FOCUS_PROTOCOLS \<Longrightarrow> 5000000 \<le> tvl \<Longrightarrow> tvl \<le> 50000000 \<Longrightarrow> 50 < apy \<Longrightarrow>
   risk_score apy tvl p = ''High''"
  by (simp add: risk_score_def Let_def)

theorem risk_score_mid_tvl_high_apy_witness:
  "risk_score 60 10000000 ''uniswap'' = ''High''"
proof -
  have "lower ''uniswap'' \<notin> FOCUS_PROTOCOLS"
    by (simp add: lower_uniswap uniswap_not_focus)
  then show ?thesis
    using risk_score_mid_tvl_high_apy [of "''uniswap''" 10000000 60] by simp
qed

section \<open>The yield classifier: one pool\<close>

lemma pool_entry_retained:
  assumes "is_number (dict_get d ''apy'' JNull)"
    and "is_number (dict_get d ''tvlUsd'' (JInt 0))"
    and "py_float (dict_get d ''apy'' JNull) = Inr apy"
    and "py_float (dict_get d ''tvlUsd'' (JInt 0)) = Inr tvl"
    and "MIN_APY \<le> apy" and "MIN_TVL \<le> tvl"
  shows "\<exists>e. pool_entry repr (JObj d) = Inr (Some e)
           \<and> YieldEntry.risk e = risk_score apy tvl (project e)
           \<and> ror e = calc_ror apy (YieldEntry.risk e)
           \<and> apy_str e = fmt_2f apy @ ''%''
           \<and> tvl_str e = ''$'' @ fmt_comma0 tvl"
  using assms by (simp add: pool_entry_def Let_def)



lemma place_cases:
  "place e b =
    (if lower (project e) \<in> FOCUS_PROTOCOLS then
       b\<lparr>focus := focus b @ [e],
         layer2 := (if YieldEntry.chain e \<in> LAYER2_CHAINS then layer2 b @ [e] else layer2 b)\<rparr>
     else if YieldEntry.risk e = ''Low'' then
       b\<lparr>long_term := long_term b @ [e],
         layer2 := (if YieldEntry.chain e \<in> LAYER2_CHAINS then layer2 b @ [e] else layer2 b)\<rparr>
     else
       b\<lparr>short_term := short_term b @ [e],
         layer2 := (if YieldEntry.chain e \<in> LAYER2_CHAINS then layer2 b @ [e] else layer2 b)\<rparr>)"
  by (simp add: place_def Let_def)

text \<open>A pool outside the focus set, used to instantiate the statements below.\<close>

lemma sample_pool_fields:
  "is_number (dict_get [(''apy'', JFloat (5123 / 1000)), (''tvlUsd'', JFloat (1200001 / 2)),
      (''project'', JStr ''uniswap''), (''chain'', JStr ''Base'')] ''apy'' JNull)"
  "is_number (dict_get [(''apy'', JFloat (5123 / 1000)), (''tvlUsd'', JFloat (1200001 / 2)),
      (''project'', JStr ''uniswap''), (''chain'', JStr ''Base'')] ''tvlUsd'' (JInt 0))"
  "py_float (dict_get [(''apy'', JFloat (5123 / 1000)), (''tvlUsd'', JFloat (1200001 / 2)),
      (''project'', JStr ''uniswap''), (''chain'', JStr ''Base'')] ''apy'' JNull) = Inr (5123 / 1000)"
  "py_float (dict_get [(''apy'', JFloat (5123 / 1000)), (''tvlUsd'', JFloat (1200001 / 2)),
      (''project'', JStr ''uniswap''), (''chain'', JStr ''Base'')] ''tvlUsd'' (JInt 0)) = Inr (1200001 / 2)"
  by (simp_all add: dict_get_def py_float_def)

text \<open>
  Claim C3: a pool with numeric apy of at least 5 and numeric tvl of at least 500000 yields
  an entry, and the loop appends that entry to exactly one of \<open>focus\<close>, \<open>long_term\<close> and
  \<open>short_term\<close>: to \<open>focus\<close> when the project is a focus protocol, otherwise to
  \<open>long_term\<close> when its tier is Low and to \<open>short_term\<close> when it is not; the other two
  lists are unchanged. Independently, it is appended to \<open>layer2\<close> exactly when its chain
  is a layer-2 chain.
\<close>

theorem retained_pool_placement:
  assumes "is_number (dict_get d ''apy'' JNull)"
    and "is_number (dict_get d ''tvlUsd'' (JInt 0))"
    and "py_float (dict_get d ''apy'' JNull) = Inr apy"
    and "py_float (dict_get d ''tvlUsd'' (JInt 0)) = Inr tvl"
    and "5 \<le> apy" and "500000 \<le> tvl"
  shows "\<exists>e. pool_entry repr (JObj d) = Inr (Some e)
           \<and> classify_loop repr (JObj d # pools) b = classify_loop repr pools (place e b)
           \<and> (if lower (project e) \<in> FOCUS_PROTOCOLS then
                 focus (place e b) = focus b @ [e]
                 \<and> long_term (place e b) = long_term b
                 \<and> short_term (place e b) = short_term b
               else if YieldEntry.risk e = ''Low'' then
                 focus (place e b) = focus b
                 \<and> long_term (place e b) = long_term b @ [e]
                 \<and> short_term (place e b) = short_term b
               else
                 focus (place e b) = focus b
                 \<and> long_term (place e b) = long_term b
                 \<and> short_term (place e b) = short_term b @ [e])
           \<and> layer2 (place e b) =
                 (if YieldEntry.chain e \<in> LAYER2_CHAINS then layer2 b @ [e] else layer2 b)"
proof -
  from assms(5,6) have "MIN_APY \<le> apy" "MIN_TVL \<le> tvl"
    by (simp_all add: MIN_APY_def MIN_TVL_def)
  from pool_entry_retained [OF assms(1-4) this, of repr] obtain e where
    e: "pool_entry repr (JObj d) = Inr (Some e)"
    by blast
  then have "classify_loop repr (JObj d # pools) b = classify_loop repr pools (place e b)"
    by simp
  with e show ?thesis
    by (intro exI [of _ e]) (simp add: place_cases)
qed

theorem retained_pool_placement_witness:
  "\<exists>e. pool_entry (\<lambda>v. [])
          (JObj [(''apy'', JFloat (5123 / 1000)), (''tvlUsd'', JFloat (1200001 / 2)),
                 (''project'', JStr ''uniswap''), (''chain'', JStr ''Base'')]) = Inr (Some e)
       \<and> classify_loop (\<lambda>v. [])
            (JObj [(''apy'', JFloat (5123 / 1000)), (''tvlUsd'', JFloat (1200001 / 2)),
                   (''project'', JStr ''uniswap''), (''chain'', JStr ''Base'')] # []) empty_buckets =
          classify_loop (\<lambda>v. []) [] (place e empty_buckets)
       \<and> (if lower (project e) \<in> FOCUS_PROTOCOLS then
             focus (place e empty_buckets) = focus empty_buckets @ [e]
             \<and> long_term (place e empty_buckets) = long_term empty_buckets
             \<and> short_term (place e empty_buckets) = short_term empty_buckets
           else if YieldEntry.risk e = ''Low'' then
             focus (place e empty_buckets) = focus empty_buckets
             \<and> long_term (place e empty_buckets) = long_term empty_buckets @ [e]
             \<and> short_term (place e empty_buckets) = short_term empty_buckets
           else
             focus (place e empty_buckets) = focus empty_buckets
             \<and> long_term (place e empty_buckets) = long_term empty_buckets
             \<and> short_term (place e empty_buckets) = short_term empty_buckets @ [e])
       \<and> layer2 (place e empty_buckets) =
             (if YieldEntry.chain e \<in> LAYER2_CHAINS then layer2 empty_buckets @ [e]
              else layer2 empty_buckets)"
proof -
  have "(5::rat) \<le> 5123 / 1000" "(500000::rat) \<le> 1200001 / 2"
    by simp_all
  from retained_pool_placement [OF sample_pool_fields this, of "\<lambda>v. []" "[]" empty_buckets]
  show ?thesis .
qed



section \<open>The yield classifier: the whole feed\<close>

lemma lower_beefy: "lower ''beefy'' = ''beefy''"
  by (simp add: lower_def lower_char_def)

lemma beefy_focus: "''beefy'' \<in> FOCUS_PROTOCOLS"
  by (simp add: FOCUS_PROTOCOLS_def)

lemma lower_eth: "lower ''eth'' = ''eth''"
  by (simp add: lower_def lower_char_def)

lemma eth_not_layer2: "''eth'' \<notin> LAYER2_CHAINS"
  by (simp add: LAYER2_CHAINS_def)

lemma digits_60000000: "digits 60000000 = ''60000000''"
  by (simp add: digits.simps digit_char_def)

lemma group3_60000000: "group3 ''60000000'' = ''60,000,000''"
  by (simp add: group3.simps)

lemma fmt_comma0_60000000: "fmt_comma0 60000000 = ''60,000,000''"
  by (simp add: fmt_comma0_def round_half_even_def digits_60000000 group3_60000000)

lemma fmt_2f_20: "fmt_2f 20 = ''20.00''"
  by (simp add: fmt_2f_def round_half_even_def digits.simps digit_char_def)

lemma pool_entry_beefy:
  "pool_entry repr (JObj [(''apy'', JInt 20), (''tvlUsd'', JInt 60000000),
       (''project'', JStr ''beefy''), (''chain'', JStr ''eth''), (''symbol'', JStr ''X''),
       (''pool'', JStr ''p1'')]) =
   Inr (Some \<lparr>project = ''beefy'', chain = ''eth'', apy_str = ''20.00%'', symbol = ''X'',
              tvl_str = ''$60,000,000'', risk = ''Low'', pool_id = ''p1'', ror = 20,
              type = ''Vault / Auto-compounding''\<rparr>)"
  by (simp add: pool_entry_def dict_get_def py_or_def py_str_def py_float_def MIN_APY_def
      MIN_TVL_def risk_score_def lower_beefy lower_eth beefy_focus calc_ror_def risk_factor_def
      OPPORTUNITY_TYPE_MAP_def fmt_2f_20 fmt_comma0_60000000)

lemma classify_beefy_feed:
  "classify_yield_opportunities repr
     (Response 200 [] (Json (JObj [(''data'', JList
        [JObj [(''apy'', JInt 20), (''tvlUsd'', JInt 60000000),
               (''project'', JStr ''beefy''), (''chain'', JStr ''eth''),
               (''symbol'', JStr ''X''), (''pool'', JStr ''p1'')]])]))) =
   Inr \<lparr>long_term = [], short_term = [],
        focus = [\<lparr>project = ''beefy'', chain = ''eth'', apy_str = ''20.00%'', symbol = ''X'',
                  tvl_str = ''$60,000,000'', risk = ''Low'', pool_id = ''p1'', ror = 20,
                  type = ''Vault / Auto-compounding''\<rparr>],
        layer2 = []\<rparr>"
  by (simp add: classify_yield_opportunities_def classify_in_def safe_request_def feed_dict_def
      dict_get_def pool_entry_beefy place_def lower_beefy beefy_focus eth_not_layer2
      empty_buckets_def sorted_desc_def)

text \<open>
  Claim C6: for the pool \<^verbatim>\<open>{apy: 20, tvlUsd: 60000000, project: "beefy", chain: "eth",
  symbol: "X", pool: "p1"}\<close> the tier is Low because the project is a focus protocol (the
  same numbers give Medium for a project outside the set), the ranking score is 20, and
  the classifier puts the entry in \<open>focus\<close> and in neither \<open>long_term\<close> nor \<open>short_term\<close>.
\<close>

theorem beefy_scenario:
  "risk_score 20 60000000 ''beefy'' = ''Low''
   \<and> risk_score 20 60000000 ''uniswap'' = ''Medium''
   \<and> calc_ror 20 (risk_score 20 60000000 ''beefy'') = 20
   \<and> classify_yield_opportunities repr
        (Response 200 [] (Json (JObj [(''data'', JList
          [JObj [(''apy'', JInt 20), (''tvlUsd'', JInt 60000000),
                 (''project'', JStr ''beefy''), (''chain'', JStr ''eth''),
                 (''symbol'', JStr ''X''), (''pool'', JStr ''p1'')]])]))) =
      Inr \<lparr>long_term = [], short_term = [],
           focus = [\<lparr>project = ''beefy'', chain = ''eth'', apy_str = ''20.00%'', symbol = ''X'',
                     tvl_str = ''$60,000,000'', risk = ''Low'', pool_id = ''p1'', ror = 20,
                     type = ''Vault / Auto-compounding''\<rparr>],
           layer2 = []\<rparr>"
proof -
  have low: "risk_score 20 60000000 ''beefy'' = ''Low''"
    by (simp add: risk_score_def lower_beefy beefy_focus)
  have other: "risk_score 20 60000000 ''uniswap'' = ''Medium''"
    by (simp add: risk_score_def lower_uniswap uniswap_not_focus)
  have score: "calc_ror 20 ''Low'' = 20"
    by (simp add: calc_ror_def risk_factor_def)
  from low other score classify_beefy_feed [of repr] show ?thesis
    by simp
qed

theorem beefy_scenario_witness:
  "risk_score 20 60000000 ''beefy'' = ''Low''
   \<and> calc_ror 20 (risk_score 20 60000000 ''beefy'') = 20"
  using beefy_scenario [of "\<lambda>v. []"] by blast

text \<open>
  The degrade-to-empty policy holds where the request itself fails: no connection, a
  status from 400 to 599, a body that is not JSON, or a JSON object with the key
  \<^verbatim>\<open>error\<close>.
\<close>

lemma classify_request_failed:
  "classify_yield_opportunities repr (RequestFailed msg) = Inr empty_buckets"
  by (simp add: classify_yield_opportunities_def classify_in_def safe_request_def feed_dict_def)

lemma classify_error_status:
  "400 \<le> status \<Longrightarrow> status < 600 \<Longrightarrow>
   classify_yield_opportunities repr (Response status msg b) = Inr empty_buckets"
  by (simp add: classify_yield_opportunities_def classify_in_def safe_request_def feed_dict_def)

lemma classify_not_json:
  "classify_yield_opportunities repr (Response 200 msg (NotJson msg')) = Inr empty_buckets"
  by (simp add: classify_yield_opportunities_def classify_in_def safe_request_def feed_dict_def)

text \<open>
  An int beyond the range of a double passes \<^verbatim>\<open>isinstance\<close> and raises at \<^verbatim>\<open>float(apy_val)\<close>.
\<close>

lemma pool_entry_overflow:
  "pool_entry repr (JObj [(''apy'', JInt (2 ^ 1024)), (''tvlUsd'', JInt 1000000)]) = Inl OverflowError"
  by (simp add: pool_entry_def dict_get_def py_float_def)

text \<open>
  On a body that is a JSON object the classifier raises in that one case only.
\<close>

lemma pool_entry_raises: "pool_entry repr raw = Inl e \<Longrightarrow> e = OverflowError"
  by (cases raw)
     (auto simp: pool_entry_def py_float_def Let_def split: if_splits sum.splits json.splits)

lemma classify_loop_raises: "classify_loop repr pools b = Inl e \<Longrightarrow> e = OverflowError"
  by (induction pools arbitrary: b) (auto split: sum.splits option.splits dest: pool_entry_raises)

lemma classify_object_body_raises:
  assumes "safe_request out = JObj d" and "classify_yield_opportunities repr out = Inl e"
  shows "e = OverflowError"
  using assms
  by (auto simp: classify_yield_opportunities_def classify_in_def feed_dict_def Let_def
      split: if_splits sum.splits dest: classify_loop_raises)

text \<open>
  Claim C1 says that the classifier returns four empty buckets on every failed feed and
  never raises, whatever the feed sends. The code raises when the body is valid JSON but
  not an object: on the body \<^verbatim>\<open>[]\<close> with status 200, \<^verbatim>\<open>"error" in data\<close> is false and
  \<^verbatim>\<open>data.get\<close> raises \<^verbatim>\<open>AttributeError\<close>, outside the \<^verbatim>\<open>try\<close> of \<open>safe_request\<close>.
\<close>

theorem classify_list_body_raises:
  "classify_yield_opportunities repr (Response 200 msg (Json (JList []))) = Inl AttributeError"
  by (simp add: classify_yield_opportunities_def classify_in_def safe_request_def feed_dict_def)

lemma classify_in_lengths:
  assumes "classify_in mode repr out = Inr b"
  shows "length (long_term b) \<le> 10 \<and> length (short_term b) \<le> 10
         \<and> length (focus b) \<le> 10 \<and> length (layer2 b) \<le> 10"
  using assms
  by (auto simp: classify_in_def Let_def empty_buckets_def split: sum.splits option.splits)

lemma classify_in_sorted:
  assumes "classify_in mode repr out = Inr b"
  shows "sorted_wrt (\<lambda>x y. sort_key_in mode y \<le> sort_key_in mode x) (long_term b)
         \<and> sorted_wrt (\<lambda>x y. sort_key_in mode y \<le> sort_key_in mode x) (short_term b)
         \<and> sorted_wrt (\<lambda>x y. sort_key_in mode y \<le> sort_key_in mode x) (focus b)
         \<and> sorted_wrt (\<lambda>x y. sort_key_in mode y \<le> sort_key_in mode x) (layer2 b)"
  using assms
  by (auto simp: classify_in_def Let_def empty_buckets_def descending_sorted_desc sorted_wrt_take
      split: sum.splits option.splits)

section \<open>Top picks\<close>

text \<open>
  Claim C8: \<open>get_top_picks\<close> on the concatenation of the four buckets returns the first
  five of a list \<open>s\<close> that holds every entry as often as the four buckets together hold it
  (nothing is deduplicated), is in descending order of \<open>ror\<close>, and keeps entries of equal
  \<open>ror\<close> in the order of the concatenation.
\<close>

theorem get_top_picks_stable_top5:
  "\<exists>s. get_top_picks (all_opportunities b) = take 5 s
       \<and> mset s = mset (long_term b) + mset (short_term b) + mset (focus b) + mset (layer2 b)
       \<and> sorted_wrt (\<lambda>x y. ror y \<le> ror x) s
       \<and> (\<forall>v. filter (\<lambda>e. ror e = v) s =
                filter (\<lambda>e. ror e = v) (long_term b @ short_term b @ focus b @ layer2 b))"
  by (intro exI [of _ "sorted_desc ror (all_opportunities b)"])
     (simp add: get_top_picks_def mset_sorted_desc descending_sorted_desc stable_sorted_desc
       all_opportunities_def)

theorem get_top_picks_stable_top5_witness:
  "\<exists>s. get_top_picks (all_opportunities
            \<lparr>long_term = [], short_term = [],
             focus = [\<lparr>project = ''beefy'', chain = ''base'', apy_str = ''20.00%'', symbol = ''X'',
                       tvl_str = ''$60,000,000'', risk = ''Low'', pool_id = ''p1'', ror = 20,
                       type = ''Vault / Auto-compounding''\<rparr>],
             layer2 = [\<lparr>project = ''beefy'', chain = ''base'', apy_str = ''20.00%'', symbol = ''X'',
                        tvl_str = ''$60,000,000'', risk = ''Low'', pool_id = ''p1'', ror = 20,
                        type = ''Vault / Auto-compounding''\<rparr>]\<rparr>) = take 5 s
       \<and> count (mset s)
             \<lparr>project = ''beefy'', chain = ''base'', apy_str = ''20.00%'', symbol = ''X'',
              tvl_str = ''$60,000,000'', risk = ''Low'', pool_id = ''p1'', ror = 20,
              type = ''Vault / Auto-compounding''\<rparr> = 2"
proof -
  let ?e = "\<lparr>project = ''beefy'', chain = ''base'', apy_str = ''20.00%'', symbol = ''X'',
             tvl_str = ''$60,000,000'', risk = ''Low'', pool_id = ''p1'', ror = 20,
             type = ''Vault / Auto-compounding''\<rparr>"
  let ?b = "\<lparr>long_term = [], short_term = [], focus = [?e], layer2 = [?e]\<rparr>"
  from get_top_picks_stable_top5 [of ?b] obtain s where
    "get_top_picks (all_opportunities ?b) = take 5 s"
    and "mset s = mset (long_term ?b) + mset (short_term ?b) + mset (focus ?b) + mset (layer2 ?b)"
    by blast
  then have "get_top_picks (all_opportunities ?b) = take 5 s \<and> count (mset s) ?e = 2"
    by simp
  then show ?thesis by blast
qed

section \<open>The meme-coin scanner: one pair\<close>




lemma chain_name_eth: "chain_name repr (JInt 1) = Inr ''eth''"
  by (simp add: chain_name_def int_key_def CHAIN_ID_MAP_def lower_eth)

lemma chain_name_bsc: "chain_name repr (JInt 56) = Inr ''bsc''"
  by (simp add: chain_name_def int_key_def CHAIN_ID_MAP_def lower_def lower_char_def)


lemma eth_tracked: "''eth'' \<in> MEME_CHAINS"
  by (simp add: MEME_CHAINS_def)

lemma bsc_tracked: "''bsc'' \<in> MEME_CHAINS"
  by (simp add: MEME_CHAINS_def)




lemma scan_pair_sample_eth:
  "scan_pair repr (JObj sample_pair_eth) (cands, chv) =
     Inr (cands @ [(sample_pair_eth, 200000, 20000, 0)], Some ''eth'')"
  by (simp add: scan_pair_def sample_pair_eth_def dict_get_def chain_name_eth eth_tracked
      nested_float_def py_or_def py_float_def MIN_LIQUIDITY_def)

lemma scan_pair_sample_bsc:
  "scan_pair repr (JObj sample_pair_bsc) (cands, chv) =
     Inr (cands @ [(sample_pair_bsc, 300000, 900000, 0)], Some ''bsc'')"
  by (simp add: scan_pair_def sample_pair_bsc_def dict_get_def chain_name_bsc bsc_tracked
      nested_float_def py_or_def py_float_def MIN_LIQUIDITY_def)



section \<open>The meme-coin scanner: the loops\<close>

lemma scan_pair_result:
  assumes "scan_pair repr p (acc, c) = Inr (acc', c')"
  shows "acc' = acc @ (case kept_candidate repr p of Some x \<Rightarrow> [x] | None \<Rightarrow> [])
         \<and> c' = last_chain repr [p] c"
  using assms
  by (cases p) (auto simp: scan_pair_def kept_candidate_def split: sum.splits if_splits)

lemma scan_pairs_result:
  assumes "scan_pairs repr ps (acc, c) = Inr (acc', c')"
  shows "acc' = acc @ List.map_filter (kept_candidate repr) ps \<and> c' = last_chain repr ps c"
  using assms
proof (induction ps arbitrary: acc c)
  case Nil
  then show ?case by (simp add: List.map_filter_def)
next
  case (Cons p ps)
  from Cons.prems obtain acc1 c1 where
    step: "scan_pair repr p (acc, c) = Inr (acc1, c1)"
    and rest: "scan_pairs repr ps (acc1, c1) = Inr (acc', c')"
    by (auto split: sum.splits)
  from scan_pair_result [OF step] Cons.IH [OF rest] show ?case
    by (simp split: option.splits)
qed

lemma kept_candidate_dict: "kept_candidate repr p = Some x \<Longrightarrow> \<exists>d. p = JObj d"
  by (cases p) (simp_all add: kept_candidate_def)

lemma last_chain_Some: "\<exists>ch'. last_chain repr ps (Some ch) = Some ch'"
  by (induction ps arbitrary: ch) (auto split: json.splits sum.splits)

text \<open>
  When a pair of the list is kept, the variable \<^verbatim>\<open>chain\<close> has been assigned in this very
  loop: its value after the loop does not depend on its value before.
\<close>

lemma last_chain_fresh:
  assumes "scan_pairs repr ps (acc, c) = Inr st"
    and "List.map_filter (kept_candidate repr) ps \<noteq> []"
  shows "last_chain repr ps c = last_chain repr ps c2 \<and> last_chain repr ps c \<noteq> None"
  using assms
proof (induction ps arbitrary: acc c c2 st)
  case Nil
  then show ?case by (simp add: List.map_filter_def)
next
  case (Cons p ps)
  from Cons.prems(1) obtain acc1 c1 where
    step: "scan_pair repr p (acc, c) = Inr (acc1, c1)"
    and rest: "scan_pairs repr ps (acc1, c1) = Inr st"
    by (auto split: sum.splits)
  show ?case
  proof (cases "List.map_filter (kept_candidate repr) ps = []")
    case False
    from scan_pair_result [OF step] have c1: "c1 = last_chain repr [p] c" by simp
    from Cons.IH [OF rest False] have
      "last_chain repr ps c1 = last_chain repr ps (last_chain repr [p] c2)"
      "last_chain repr ps c1 \<noteq> None"
      by blast+
    with c1 show ?thesis by simp
  next
    case True
    with Cons.prems(2) obtain x where x: "kept_candidate repr p = Some x"
      by (auto split: option.splits)
    then obtain d where d: "p = JObj d" using kept_candidate_dict by blast
    from x d obtain ch where ch: "chain_name repr (dict_get d ''chainId'' (JInt 0)) = Inr ch"
      by (auto simp: kept_candidate_def split: sum.splits)
    from d ch last_chain_Some [of repr ps ch] show ?thesis by auto
  qed
qed

lemma sorted_desc_Nil: "sorted_desc k [] = []"
  by (simp add: sorted_desc_def)

lemma scan_query_result:
  assumes "scan_query repr out (res, c) = Inr (res', c')"
  shows "res' = res @ map (meme_entry repr (term_chain repr out))
                        (take 3 (sorted_desc volume_of (term_candidates repr out)))"
proof (cases "feed_dict (safe_request out)")
  case (Inl e)
  with assms show ?thesis by (simp add: scan_query_def)
next
  case (Inr od)
  show ?thesis
  proof (cases od)
    case None
    with Inr have "term_pairs out = []"
      by (auto simp: term_pairs_def feed_dict_def split: json.splits if_splits)
    with assms Inr None show ?thesis
      by (simp add: scan_query_def term_candidates_def List.map_filter_def sorted_desc_Nil)
  next
    case (Some d)
    with Inr have data: "safe_request out = JObj d" "map_of d ''error'' = None"
      by (auto simp: feed_dict_def split: json.splits if_splits)
    show ?thesis
    proof (cases "\<exists>pairs. dict_get d ''pairs'' (JList []) = JList pairs")
      case False
      with data have "term_pairs out = []"
        by (auto simp: term_pairs_def split: json.splits)
      moreover from False assms Inr Some have "res' = res"
        by (auto simp: scan_query_def split: json.splits)
      ultimately show ?thesis
        by (simp add: term_candidates_def List.map_filter_def sorted_desc_Nil)
    next
      case True
      then obtain pairs where pairs: "dict_get d ''pairs'' (JList []) = JList pairs"
        by blast
      with data have tp: "term_pairs out = pairs"
        by (simp add: term_pairs_def)
      from assms Inr Some pairs obtain cands chv where
        loop: "scan_pairs repr pairs ([], c) = Inr (cands, chv)"
        by (auto simp: scan_query_def split: sum.splits)
      from scan_pairs_result [OF loop] have
        cands: "cands = term_candidates repr out"
        and chv: "chv = last_chain repr pairs c"
        by (simp_all add: term_candidates_def tp)
      show ?thesis
      proof (cases "take 3 (sorted_desc volume_of cands) = []")
        case True
        with assms Inr Some pairs loop cands show ?thesis
          by (simp add: scan_query_def)
      next
        case False
        then have "cands \<noteq> []" by (auto simp: sorted_desc_Nil)
        with cands have ne: "List.map_filter (kept_candidate repr) pairs \<noteq> []"
          by (simp add: term_candidates_def tp)
        from last_chain_fresh [OF loop ne, of None] obtain ch where
          ch: "last_chain repr pairs c = Some ch" "last_chain repr pairs None = Some ch"
          by (cases "last_chain repr pairs c") (auto dest: sym)
        from ch(2) have tc: "term_chain repr out = ch"
          by (simp add: term_chain_def tp)
        from ch(1) chv have "chv = Some ch" by simp
        with assms Inr Some pairs loop False have
          "res' = res @ map (meme_entry repr ch) (take 3 (sorted_desc volume_of cands))"
          by (simp add: scan_query_def)
        with tc cands show ?thesis by simp
      qed
    qed
  qed
qed

lemma scan_queries_result:
  assumes "scan_queries repr feed qs (res, c) = Inr (res', c')"
  shows "res' = res @ concat (map (\<lambda>q. map (meme_entry repr (term_chain repr (feed q)))
                                 (take 3 (sorted_desc volume_of (term_candidates repr (feed q))))) qs)"
  using assms
proof (induction qs arbitrary: res c)
  case Nil
  then show ?case by simp
next
  case (Cons q qs)
  from Cons.prems obtain res1 c1 where
    step: "scan_query repr (feed q) (res, c) = Inr (res1, c1)"
    and rest: "scan_queries repr feed qs (res1, c1) = Inr (res', c')"
    by (auto split: sum.splits)
  from scan_query_result [OF step] Cons.IH [OF rest] show ?case by simp
qed

text \<open>
  Claim C4: when the scanner returns, its result is the first twelve entries of the
  concatenation, in the order of the search terms, of each term's entries; a term's
  entries are built from the first three of its surviving candidates in descending order
  of 24h volume (a stable sort of the survivors). Nothing is sorted across terms.
\<close>

theorem get_meme_coins_per_term:
  assumes "get_meme_coins repr feed = Inr ms"
  shows "ms = take 12 (concat (map
                (\<lambda>q. map (meme_entry repr (term_chain repr (feed q)))
                       (take 3 (sorted_desc volume_of (term_candidates repr (feed q)))))
                [''pepe'', ''doge'', ''shiba'', ''floki'', ''bonk'']))
         \<and> (\<forall>q. sorted_wrt (\<lambda>x y. volume_of y \<le> volume_of x)
                   (sorted_desc volume_of (term_candidates repr (feed q)))
                \<and> mset (sorted_desc volume_of (term_candidates repr (feed q))) =
                    mset (term_candidates repr (feed q)))"
proof -
  from assms obtain res c where
    "scan_queries repr feed queries ([], None) = Inr (res, c)" and "ms = take 12 res"
    by (auto simp: get_meme_coins_def split: sum.splits)
  with scan_queries_result [of repr feed queries "[]" None res c] show ?thesis
    by (simp add: queries_def descending_sorted_desc mset_sorted_desc)
qed

lemma fmt_comma0_samples:
  "fmt_comma0 200000 = ''200,000''" "fmt_comma0 20000 = ''20,000''"
  "fmt_comma0 300000 = ''300,000''" "fmt_comma0 900000 = ''900,000''"
  by (simp_all add: fmt_comma0_def round_half_even_def digits.simps digit_char_def group3.simps)

lemma fmt_2f_0: "fmt_2f 0 = ''0.00''"
  by (simp add: fmt_2f_def round_half_even_def digits.simps digit_char_def)

lemma meme_entry_sample_eth:
  "meme_entry repr ''eth'' (sample_pair_eth, 200000, 20000, 0) = sample_entry_eth"
  by (simp add: meme_entry_def sample_pair_eth_def sample_entry_eth_def dict_get_def py_or_def
      py_str_def fmt_comma0_samples fmt_2f_0)

lemma meme_entry_sample_bsc:
  "meme_entry repr ''bsc'' (sample_pair_bsc, 300000, 900000, 0) = sample_entry_bsc"
  by (simp add: meme_entry_def sample_pair_bsc_def sample_entry_bsc_def dict_get_def py_or_def
      py_str_def fmt_comma0_samples fmt_2f_0)

lemma scan_query_failed: "scan_query repr (RequestFailed msg) st = Inr st"
  by (simp add: scan_query_def safe_request_def feed_dict_def)

lemma scan_query_pepe:
  "scan_query repr (sample_feed ''pepe'') (res, c) = Inr (res @ [sample_entry_eth], Some ''eth'')"
  by (simp add: scan_query_def sample_feed_def safe_request_def feed_dict_def dict_get_def
      scan_pair_sample_eth sorted_desc_def meme_entry_sample_eth)

lemma scan_query_doge:
  "scan_query repr (sample_feed ''doge'') (res, c) = Inr (res @ [sample_entry_bsc], Some ''bsc'')"
  by (simp add: scan_query_def sample_feed_def safe_request_def feed_dict_def dict_get_def
      scan_pair_sample_bsc sorted_desc_def meme_entry_sample_bsc)

lemma sample_feed_others:
  "sample_feed ''shiba'' = RequestFailed ''timeout''"
  "sample_feed ''floki'' = RequestFailed ''timeout''"
  "sample_feed ''bonk'' = RequestFailed ''timeout''"
  by (simp_all add: sample_feed_def)

lemma get_meme_coins_sample:
  "get_meme_coins repr sample_feed = Inr [sample_entry_eth, sample_entry_bsc]"
  by (simp add: get_meme_coins_def queries_def scan_query_pepe scan_query_doge
      sample_feed_others scan_query_failed)

theorem get_meme_coins_per_term_witness:
  "get_meme_coins (\<lambda>v. []) sample_feed = Inr [sample_entry_eth, sample_entry_bsc]
   \<and> [sample_entry_eth, sample_entry_bsc] =
       take 12 (concat (map
          (\<lambda>q. map (meme_entry (\<lambda>v. []) (term_chain (\<lambda>v. []) (sample_feed q)))
                 (take 3 (sorted_desc volume_of (term_candidates (\<lambda>v. []) (sample_feed q)))))
          [''pepe'', ''doge'', ''shiba'', ''floki'', ''bonk'']))"
  using get_meme_coins_per_term [OF get_meme_coins_sample [of "\<lambda>v. []"]]
    get_meme_coins_sample [of "\<lambda>v. []"]
  by blast

section \<open>Sizes of the results\<close>

text \<open>
  Claim C9: whatever the feeds send, each of the four buckets the classifier returns has at
  most 10 entries, the top picks are at most 5, and the list the meme scanner returns has
  at most 12 entries.
\<close>

theorem result_lengths:
  "(classify_yield_opportunities repr out = Inr b \<longrightarrow>
      length (long_term b) \<le> 10 \<and> length (short_term b) \<le> 10
      \<and> length (focus b) \<le> 10 \<and> length (layer2 b) \<le> 10)
   \<and> length (get_top_picks xs) \<le> 5
   \<and> (get_meme_coins repr feed = Inr ms \<longrightarrow> length ms \<le> 12)"
proof -
  have "length (get_top_picks xs) \<le> 5"
    by (simp add: get_top_picks_def)
  moreover have "get_meme_coins repr feed = Inr ms \<longrightarrow> length ms \<le> 12"
    by (auto simp: get_meme_coins_def split: sum.splits)
  ultimately show ?thesis
    using classify_in_lengths [of SORT_MODE repr out b]
    by (simp add: classify_yield_opportunities_def)
qed

theorem result_lengths_witness:
  "classify_yield_opportunities (\<lambda>v. []) (RequestFailed ''timeout'') = Inr empty_buckets
   \<and> get_meme_coins (\<lambda>v. []) sample_feed = Inr [sample_entry_eth, sample_entry_bsc]
   \<and> length (long_term empty_buckets) \<le> 10 \<and> length (short_term empty_buckets) \<le> 10
   \<and> length (focus empty_buckets) \<le> 10 \<and> length (layer2 empty_buckets) \<le> 10
   \<and> length (get_top_picks (all_opportunities empty_buckets)) \<le> 5
   \<and> length [sample_entry_eth, sample_entry_bsc] \<le> 12"
  using result_lengths [of "\<lambda>v. []" "RequestFailed ''timeout''" empty_buckets
      "all_opportunities empty_buckets" sample_feed "[sample_entry_eth, sample_entry_bsc]"]
    classify_request_failed [of "\<lambda>v. []" "''timeout''"]
    get_meme_coins_sample [of "\<lambda>v. []"]
  by blast

section \<open>Formatting and parsing back\<close>

lemma digit_char_is_digit: "is_digit (digit_char d)"
proof -
  have "d mod 10 < length ''0123456789''" by simp
  then have "''0123456789'' ! (d mod 10) \<in> set ''0123456789''" by (rule nth_mem)
  then show ?thesis unfolding is_digit_def digit_char_def .
qed

lemma digit_val_nth: "k < 10 \<Longrightarrow> digit_val (''0123456789'' ! k) = k"
proof -
  assume "k < 10"
  then have "k \<in> {0, 1, 2, 3, 4, 5, 6, 7, 8, 9}" by auto
  then show ?thesis by (auto simp: digit_val_def)
qed

lemma digit_val_digit_char: "digit_val (digit_char d) = d mod 10"
  by (simp add: digit_char_def digit_val_nth)

lemma is_digit_not_special:
  assumes "is_digit c"
  shows "\<not> is_space c" "c \<noteq> CHR ''_''" "c \<noteq> CHR ''-''" "c \<noteq> CHR ''+''" "c \<noteq> CHR ''.''"
    "c \<noteq> CHR '',''" "c \<noteq> CHR ''$''" "c \<noteq> CHR ''%''"
  using assms by (auto simp: is_digit_def is_space_def)

lemma digits_nonempty: "digits n \<noteq> []"
  by (subst digits.simps) simp

lemma digits_all_digit: "c \<in> set (digits n) \<Longrightarrow> is_digit c"
proof (induction n arbitrary: c rule: digits.induct)
  case (1 n)
  show ?case
  proof (cases "n < 10")
    case True
    with "1.prems" show ?thesis
      by (subst (asm) digits.simps) (simp add: digit_char_is_digit)
  next
    case False
    with "1.prems" "1.IH" show ?thesis
      by (subst (asm) digits.simps) (auto simp: digit_char_is_digit)
  qed
qed

lemma nat_of_digits_snoc: "nat_of_digits (ds @ [c]) = 10 * nat_of_digits ds + digit_val c"
  by (simp add: nat_of_digits_def)

text \<open>Reading the decimal digits of a number gives the number back.\<close>

lemma nat_of_digits_digits: "nat_of_digits (digits n) = n"
proof (induction n rule: digits.induct)
  case (1 n)
  show ?case
  proof (cases "n < 10")
    case True
    then show ?thesis
      by (subst digits.simps) (simp add: nat_of_digits_def digit_val_digit_char)
  next
    case False
    with "1.IH" show ?thesis
      by (subst digits.simps) (simp add: nat_of_digits_snoc digit_val_digit_char)
  qed
qed

lemma strip_id: "s \<noteq> [] \<Longrightarrow> \<not> is_space (hd s) \<Longrightarrow> \<not> is_space (last s) \<Longrightarrow> strip s = s"
proof -
  assume ne: "s \<noteq> []" and h: "\<not> is_space (hd s)" and l: "\<not> is_space (last s)"
  from ne h have head_kept: "dropWhile is_space s = s" by (cases s) simp_all
  from ne l have tail_kept: "dropWhile is_space (rev s) = rev s"
    by (cases "rev s") (simp_all add: last_rev [symmetric] del: last_rev)
  show ?thesis by (simp add: strip_def head_kept tail_kept)
qed

lemma drop_underscores_id: "CHR ''_'' \<notin> set s \<Longrightarrow> drop_underscores b s = Some s"
  by (induction s arbitrary: b) auto

lemma split_sign_digit: "is_digit c \<Longrightarrow> split_sign (c # r) = (False, c # r)"
  by (simp add: split_sign_def is_digit_not_special)

lemma py_float_str_decimal:
  assumes "ip \<noteq> []" and "\<forall>c\<in>set ip. is_digit c" and "fp \<noteq> []" and "\<forall>c\<in>set fp. is_digit c"
  shows "py_float_str (ip @ CHR ''.'' # fp) = Some (of_nat (nat_of_digits (ip @ fp)) / 10 ^ length fp)"
proof -
  let ?s = "ip @ CHR ''.'' # fp"
  from assms(1) obtain c r where ip: "ip = c # r" by (cases ip) auto
  with assms(2) have c: "is_digit c" by simp
  have "hd ?s = c" using ip by simp
  moreover have "last ?s = last fp" using assms(3) by simp
  moreover have "is_digit (last fp)" using assms(3,4) by simp
  ultimately have strip: "strip ?s = ?s"
    using c by (intro strip_id) (simp_all add: is_digit_not_special)
  have "CHR ''_'' \<notin> set ?s"
    using assms(2,4) by (auto dest: is_digit_not_special(2))
  then have du: "drop_underscores False ?s = Some ?s" by (rule drop_underscores_id)
  have sign: "split_sign ?s = (False, ?s)"
    using split_sign_digit [OF c, of "r @ CHR ''.'' # fp"] ip by simp
  have nd: "\<not> is_digit (CHR ''.'')" by (simp add: is_digit_def)
  have tw: "takeWhile is_digit ?s = ip"
    using assms(2) nd by (simp add: takeWhile_append2)
  have dw: "dropWhile is_digit ?s = CHR ''.'' # fp"
    using assms(2) nd by (simp add: dropWhile_append2)
  have tw2: "takeWhile is_digit fp = fp" and dw2: "dropWhile is_digit fp = []"
    using assms(4) by (simp_all add: takeWhile_eq_all_conv)
  show ?thesis
    by (simp add: py_float_str_def strip du sign tw dw tw2 dw2 Let_def assms(1)
        parse_exponent_def scale10_def del: append.simps)
qed

lemma py_float_str_integer:
  assumes "ip \<noteq> []" and "\<forall>c\<in>set ip. is_digit c"
  shows "py_float_str ip = Some (of_nat (nat_of_digits ip))"
proof -
  from assms(1) obtain c r where ip: "ip = c # r" by (cases ip) auto
  with assms(2) have c: "is_digit c" by simp
  have "is_digit (last ip)" using assms by simp
  then have strip: "strip ip = ip"
    using c ip by (intro strip_id) (simp_all add: is_digit_not_special)
  have "CHR ''_'' \<notin> set ip"
    using assms(2) by (auto dest: is_digit_not_special(2))
  then have du: "drop_underscores False ip = Some ip" by (rule drop_underscores_id)
  have sign: "split_sign ip = (False, ip)"
    using split_sign_digit [OF c, of r] ip by simp
  have tw: "takeWhile is_digit ip = ip" and dw: "dropWhile is_digit ip = []"
    using assms(2) by (simp_all add: takeWhile_eq_all_conv)
  show ?thesis
    by (simp add: py_float_str_def strip du sign tw dw Let_def assms(1)
        parse_exponent_def scale10_def)
qed

lemma remove_char_id: "c \<notin> set s \<Longrightarrow> remove_char c s = s"
  by (auto simp: remove_char_def filter_id_conv)

lemma remove_char_commute: "remove_char a (remove_char b s) = remove_char b (remove_char a s)"
  by (induction s) (simp_all add: remove_char_def)

lemma remove_comma_group3: "remove_char (CHR '','') (group3 ds) = remove_char (CHR '','') ds"
proof (induction ds rule: group3.induct)
  case (1 ds)
  show ?case
  proof (cases "length ds \<le> 3")
    case True
    then show ?thesis by (subst group3.simps) simp
  next
    case False
    have "remove_char (CHR '','') (group3 ds) =
          remove_char (CHR '','') (group3 (take (length ds - 3) ds))
            @ remove_char (CHR '','') (drop (length ds - 3) ds)"
      using False by (subst group3.simps) (simp add: remove_char_def)
    also have "\<dots> = remove_char (CHR '','') (take (length ds - 3) ds @ drop (length ds - 3) ds)"
      using "1.IH" [OF False] by (simp add: remove_char_def del: append_take_drop_id)
    finally show ?thesis by simp
  qed
qed

lemma round_half_even_nonneg: "0 \<le> x \<Longrightarrow> 0 \<le> round_half_even x"
  by (simp add: round_half_even_def Let_def)

lemma round_half_even_close: "\<bar>of_int (round_half_even x) - x\<bar> \<le> 1 / 2"
proof -
  have "of_int \<lfloor>x\<rfloor> \<le> x" "x < of_int \<lfloor>x\<rfloor> + 1"
    by linarith+
  then show ?thesis
    by (auto simp: round_half_even_def Let_def abs_le_iff)
qed

lemma nat_split_100: "100 * (n div 100) + (10 * (n mod 100 div 10) + n mod 10) = (n::nat)"
proof -
  have low: "n mod 100 mod 10 = n mod 10"
    by (simp add: mod_mod_cancel)
  have "10 * (n mod 100 div 10) + n mod 100 mod 10 = n mod 100"
    by (rule mult_div_mod_eq)
  with low have "10 * (n mod 100 div 10) + n mod 10 = n mod 100"
    by simp
  then show ?thesis
    by simp
qed

lemma apy_value_roundtrip:
  assumes "0 \<le> x" and "apy_str e = fmt_2f x @ ''%''"
  shows "apy_value e = of_int (round_half_even (x * 100)) / 100"
proof -
  define n where "n = nat (round_half_even (x * 100))"
  define ip where "ip = digits (n div 100)"
  define fp where "fp = [digit_char (n mod 100 div 10), digit_char (n mod 10)]"
  have fmt: "fmt_2f x = ip @ CHR ''.'' # fp"
    using assms(1) by (simp add: fmt_2f_def n_def ip_def fp_def Let_def abs_of_nonneg)
  have ipd: "\<forall>c\<in>set ip. is_digit c" and ipn: "ip \<noteq> []"
    by (simp_all add: ip_def digits_all_digit digits_nonempty)
  have fpd: "\<forall>c\<in>set fp. is_digit c" and fpn: "fp \<noteq> []"
    by (simp_all add: fp_def digit_char_is_digit)
  have "CHR ''%'' \<notin> set (ip @ CHR ''.'' # fp)"
    using ipd fpd by (auto dest: is_digit_not_special(8))
  then have "remove_char (CHR ''%'') (ip @ CHR ''.'' # fp) = ip @ CHR ''.'' # fp"
    by (rule remove_char_id)
  moreover have "remove_char (CHR ''%'') (apy_str e) = remove_char (CHR ''%'') (ip @ CHR ''.'' # fp)"
    by (simp add: assms(2) fmt remove_char_def)
  ultimately have rm: "remove_char (CHR ''%'') (apy_str e) = ip @ CHR ''.'' # fp"
    by simp
  have "hd (ip @ CHR ''.'' # fp) \<in> set ip" using ipn by simp
  then have h: "\<not> is_space (hd (ip @ CHR ''.'' # fp))"
    using ipd is_digit_not_special(1) by blast
  have "last (ip @ CHR ''.'' # fp) \<in> set fp" by (simp add: fp_def)
  then have l: "\<not> is_space (last (ip @ CHR ''.'' # fp))"
    using fpd is_digit_not_special(1) by blast
  have st: "strip (ip @ CHR ''.'' # fp) = ip @ CHR ''.'' # fp"
    using h l by (intro strip_id) simp_all
  have "nat_of_digits (ip @ fp) = 100 * (n div 100) + (10 * (n mod 100 div 10) + n mod 10)"
  proof -
    have "nat_of_digits (ip @ fp) =
          10 * (10 * nat_of_digits ip + digit_val (digit_char (n mod 100 div 10)))
            + digit_val (digit_char (n mod 10))"
      using nat_of_digits_snoc [of "ip @ [digit_char (n mod 100 div 10)]" "digit_char (n mod 10)"]
        nat_of_digits_snoc [of ip "digit_char (n mod 100 div 10)"]
      by (simp add: fp_def)
    also have "digit_val (digit_char (n mod 100 div 10)) = n mod 100 div 10"
      by (simp add: digit_val_digit_char)
    also have "digit_val (digit_char (n mod 10)) = n mod 10"
      by (simp add: digit_val_digit_char)
    finally show ?thesis
      by (simp add: ip_def nat_of_digits_digits)
  qed
  then have val: "nat_of_digits (ip @ fp) = n" by (simp add: nat_split_100)
  have "0 \<le> round_half_even (x * 100)"
    using assms(1) by (intro round_half_even_nonneg) simp
  then have "(of_nat n :: rat) = of_int (round_half_even (x * 100))"
    by (simp add: n_def)
  moreover have "length fp = 2" by (simp add: fp_def)
  ultimately show ?thesis
    by (simp add: apy_value_def rm st py_float_str_decimal [OF ipn ipd fpn fpd] val)
qed

lemma tvl_value_roundtrip:
  assumes "0 \<le> x" and "tvl_str e = ''$'' @ fmt_comma0 x"
  shows "tvl_value e = of_int (round_half_even x)"
proof -
  define ds where "ds = digits (nat (round_half_even x))"
  have dd: "\<forall>c\<in>set ds. is_digit c" and dn: "ds \<noteq> []"
    by (simp_all add: ds_def digits_all_digit digits_nonempty)
  have fmt: "tvl_str e = CHR ''$'' # group3 ds"
    using assms by (simp add: fmt_comma0_def ds_def abs_of_nonneg)
  have "CHR '','' \<notin> set ds"
    using dd by (auto dest: is_digit_not_special(6))
  then have "remove_char (CHR '','') (group3 ds) = ds"
    by (simp add: remove_comma_group3 remove_char_id)
  moreover have "remove_char (CHR ''$'') (tvl_str e) = remove_char (CHR ''$'') (group3 ds)"
    by (simp add: fmt remove_char_def)
  moreover have "remove_char (CHR '','') (remove_char (CHR ''$'') (group3 ds)) =
                 remove_char (CHR ''$'') (remove_char (CHR '','') (group3 ds))"
    by (rule remove_char_commute)
  moreover have "CHR ''$'' \<notin> set ds"
    using dd by (auto dest: is_digit_not_special(7))
  ultimately have rm: "remove_char (CHR '','') (remove_char (CHR ''$'') (tvl_str e)) = ds"
    by (simp add: remove_char_id)
  have "hd ds \<in> set ds" "last ds \<in> set ds" using dn by simp_all
  then have "\<not> is_space (hd ds)" "\<not> is_space (last ds)"
    using dd is_digit_not_special(1) by blast+
  then have st: "strip ds = ds" using dn by (intro strip_id)
  have "0 \<le> round_half_even x" using assms(1) by (rule round_half_even_nonneg)
  then have "(of_nat (nat (round_half_even x)) :: rat) = of_int (round_half_even x)"
    by simp
  moreover have "nat_of_digits ds = nat (round_half_even x)"
    by (simp add: ds_def nat_of_digits_digits)
  ultimately show ?thesis
    by (simp add: tvl_value_def rm st py_float_str_integer [OF dn dd])
qed

text \<open>Under the configured mode the key is the ranking score.\<close>

lemma sort_key_configured: "sort_key e = ror e"
  by (simp add: sort_key_def SORT_MODE_def sort_key_in_def)

lemma sort_key_in_modes:
  "sort_key_in ''apy'' e = apy_value e"
  "sort_key_in ''apr'' e = apy_value e"
  "sort_key_in ''tvl'' e = tvl_value e"
  "sort_key_in ''ror'' e = ror e"
  by (simp_all add: sort_key_in_def)

text \<open>
  Claim C10: the entry of a retained pool stores the apy as the text of \<^verbatim>\<open>"%.2f%%"\<close> and
  the tvl as the text of \<^verbatim>\<open>"$%,.0f"\<close>; \<open>apy_value\<close> parses back the apy rounded to two
  decimals (within 0.005 of the apy) and \<open>tvl_value\<close> the tvl rounded to a whole number
  (within 0.5 of the tvl), not the values of the feed. Under the sort modes \<^verbatim>\<open>apy\<close>,
  \<^verbatim>\<open>apr\<close> and \<^verbatim>\<open>tvl\<close> these parsed values are the sort keys, and every bucket the
  classifier returns is in descending order of the key of its mode.
\<close>

theorem display_values_rounded:
  assumes "is_number (dict_get d ''apy'' JNull)"
    and "is_number (dict_get d ''tvlUsd'' (JInt 0))"
    and "py_float (dict_get d ''apy'' JNull) = Inr apy"
    and "py_float (dict_get d ''tvlUsd'' (JInt 0)) = Inr tvl"
    and "5 \<le> apy" and "500000 \<le> tvl"
  shows "(\<exists>e. pool_entry repr (JObj d) = Inr (Some e)
            \<and> apy_str e = fmt_2f apy @ ''%''
            \<and> tvl_str e = ''$'' @ fmt_comma0 tvl
            \<and> apy_value e = of_int (round_half_even (apy * 100)) / 100
            \<and> \<bar>apy_value e - apy\<bar> \<le> 1 / 200
            \<and> tvl_value e = of_int (round_half_even tvl)
            \<and> \<bar>tvl_value e - tvl\<bar> \<le> 1 / 2
            \<and> sort_key_in ''apy'' e = apy_value e
            \<and> sort_key_in ''apr'' e = apy_value e
            \<and> sort_key_in ''tvl'' e = tvl_value e)
         \<and> (classify_in mode repr out = Inr b \<longrightarrow>
               sorted_wrt (\<lambda>x y. sort_key_in mode y \<le> sort_key_in mode x) (long_term b)
               \<and> sorted_wrt (\<lambda>x y. sort_key_in mode y \<le> sort_key_in mode x) (short_term b)
               \<and> sorted_wrt (\<lambda>x y. sort_key_in mode y \<le> sort_key_in mode x) (focus b)
               \<and> sorted_wrt (\<lambda>x y. sort_key_in mode y \<le> sort_key_in mode x) (layer2 b))"
proof -
  from assms(5,6) have min: "MIN_APY \<le> apy" "MIN_TVL \<le> tvl"
    by (simp_all add: MIN_APY_def MIN_TVL_def)
  from assms(5,6) have pos: "0 \<le> apy" "0 \<le> tvl"
    by simp_all
  from pool_entry_retained [OF assms(1-4) min, of repr] obtain e where
    e: "pool_entry repr (JObj d) = Inr (Some e)"
       "apy_str e = fmt_2f apy @ ''%''"
       "tvl_str e = ''$'' @ fmt_comma0 tvl"
    by blast
  have av: "apy_value e = of_int (round_half_even (apy * 100)) / 100"
    using pos(1) e(2) by (rule apy_value_roundtrip)
  have tv: "tvl_value e = of_int (round_half_even tvl)"
    using pos(2) e(3) by (rule tvl_value_roundtrip)
  have "\<bar>of_int (round_half_even (apy * 100)) - apy * 100\<bar> \<le> 1 / 2"
    by (rule round_half_even_close)
  then have ac: "\<bar>apy_value e - apy\<bar> \<le> 1 / 200"
    by (simp add: av abs_le_iff field_simps)
  have tc: "\<bar>tvl_value e - tvl\<bar> \<le> 1 / 2"
    using round_half_even_close [of tvl] by (simp add: tv)
  from e av ac tv tc have
    "\<exists>e. pool_entry repr (JObj d) = Inr (Some e)
       \<and> apy_str e = fmt_2f apy @ ''%''
       \<and> tvl_str e = ''$'' @ fmt_comma0 tvl
       \<and> apy_value e = of_int (round_half_even (apy * 100)) / 100
       \<and> \<bar>apy_value e - apy\<bar> \<le> 1 / 200
       \<and> tvl_value e = of_int (round_half_even tvl)
       \<and> \<bar>tvl_value e - tvl\<bar> \<le> 1 / 2
       \<and> sort_key_in ''apy'' e = apy_value e
       \<and> sort_key_in ''apr'' e = apy_value e
       \<and> sort_key_in ''tvl'' e = tvl_value e"
    using sort_key_in_modes(1-3) [of e] by blast
  then show ?thesis
    using classify_in_sorted [of mode repr out b] by blast
qed

lemma floor_samples: "\<lfloor>5123 / 10 :: rat\<rfloor> = 512" "\<lfloor>1200001 / 2 :: rat\<rfloor> = 600000"
  by (rule floor_unique; simp)+

lemma round_half_even_samples:
  "round_half_even (5123 / 1000 * 100) = 512"
  "round_half_even (1200001 / 2) = 600000"
  by (simp_all add: round_half_even_def Let_def floor_samples)

theorem display_values_rounded_witness:
  "\<exists>e. pool_entry (\<lambda>v. [])
          (JObj [(''apy'', JFloat (5123 / 1000)), (''tvlUsd'', JFloat (1200001 / 2)),
                 (''project'', JStr ''uniswap''), (''chain'', JStr ''Base'')]) = Inr (Some e)
       \<and> apy_value e = 512 / 100 \<and> apy_value e \<noteq> 5123 / 1000
       \<and> tvl_value e = 600000 \<and> tvl_value e \<noteq> 1200001 / 2
       \<and> sort_key_in ''apy'' e = 512 / 100
       \<and> sort_key_in ''tvl'' e = 600000"
proof -
  have "(5::rat) \<le> 5123 / 1000" "(500000::rat) \<le> 1200001 / 2"
    by simp_all
  from display_values_rounded [OF sample_pool_fields this, of "\<lambda>v. []"] obtain e where
    pe: "pool_entry (\<lambda>v. [])
          (JObj [(''apy'', JFloat (5123 / 1000)), (''tvlUsd'', JFloat (1200001 / 2)),
                 (''project'', JStr ''uniswap''), (''chain'', JStr ''Base'')]) = Inr (Some e)"
    and av: "apy_value e = of_int (round_half_even (5123 / 1000 * 100)) / 100"
    and tv: "tvl_value e = of_int (round_half_even (1200001 / 2))"
    and ka: "sort_key_in ''apy'' e = apy_value e"
    and kt: "sort_key_in ''tvl'' e = tvl_value e"
    by blast
  have av': "apy_value e = 512 / 100"
    by (simp only: av round_half_even_samples of_int_numeral)
  have tv': "tvl_value e = 600000"
    by (simp only: tv round_half_even_samples of_int_numeral)
  show ?thesis
    by (intro exI [of _ e]) (simp add: pe av' tv' ka kt)
qed

end
